theory Spec2Isabelle
  imports Complex_Main "HOL-Library.Multiset"
begin

section \<open>Threshold evaluation (app.py, components/glucose\_display.py)\<close>

text \<open>
  Glucose values and thresholds are Python numbers that the code only compares and
  averages; they are modelled as exact reals. The three outcomes of the threshold
  comparison are the alert types \<open>"low"\<close>, \<open>"high"\<close> and no alert.
\<close>

datatype classification = Low | InRange | High

text \<open>
  app.py, main, lines 283--310: the high threshold is tested first, the low one in the
  \<open>elif\<close>; neither branch is taken otherwise.
\<close>

definition classify :: "real \<Rightarrow> real \<Rightarrow> real \<Rightarrow> classification" where
  "classify glucose_value low_threshold high_threshold =
     (if glucose_value > high_threshold then High
      else if glucose_value < low_threshold then Low
      else InRange)"

text \<open>
  components/glucose\_display.py, display\_current\_glucose, lines 27--38: the status shown
  beside the value uses the fixed bounds 70 and 180, low first.
\<close>

definition display_status :: "real \<Rightarrow> classification" where
  "display_status v =
     (if v < 70 then Low
      else if v > 180 then High
      else InRange)"

text \<open>
  app.py, main, lines 274--310: the guard of the alert block and the alert type handed to
  \<open>AlertManager.send_glucose_alert\<close>; \<open>None\<close> when no alert is sent. The
  arguments are the truth values of \<open>st.session_state.enable_alerts\<close>,
  \<open>(phone_number or user_email)\<close>, \<open>current_glucose\<close> and
  \<open>AlertManager.can_send_alerts()\<close>.
\<close>

definition alert_decision ::
  "bool \<Rightarrow> bool \<Rightarrow> bool \<Rightarrow> bool \<Rightarrow> real \<Rightarrow> real \<Rightarrow> real \<Rightarrow> string option" where
  "alert_decision enable_alerts has_recipient has_current can_send
       glucose_value low_threshold high_threshold =
     (if enable_alerts \<and> has_recipient \<and> has_current \<and> can_send then
        (if glucose_value > high_threshold then Some ''high''
         else if glucose_value < low_threshold then Some ''low''
         else None)
      else None)"

section \<open>Series processor (utils/data\_processor.py)\<close>

text \<open>
  One row of the frame that \<open>NightscoutAPI.get_glucose_data\<close> returns: the glucose value
  \<open>sgv\<close>, the time \<open>date\<close> in epoch milliseconds and the trend code \<open>direction\<close>.
  A frame is the list of its rows in frame order; \<open>df.empty\<close> is the empty list.
\<close>

record entry =
  sgv :: real
  date :: int
  direction :: string

text \<open>
  A row after \<open>process_glucose_data\<close>: the three added columns. pandas marks a rolling
  value that is not available yet with its missing-value marker; it is \<open>None\<close> here.
\<close>

record enriched = entry +
  datetime :: int
  rolling_avg :: "real option"
  rolling_std :: "real option"

text \<open>
  \<open>Series.mean()\<close>: the sum over the number of values. pandas computes it, and every
  other aggregate below, in 64-bit floating point; the definitions give the exact value
  that the floating-point result approximates, and the rounding is not modelled.
\<close>

definition series_mean :: "real list \<Rightarrow> real" where
  "series_mean xs = sum_list xs / real (length xs)"

text \<open>
  \<open>Series.std()\<close>: the sample standard deviation (denominator \<open>n - 1\<close>), missing for
  fewer than two values.
\<close>

definition series_std :: "real list \<Rightarrow> real option" where
  "series_std xs =
     (if length xs < 2 then None
      else Some (sqrt (sum_list (map (\<lambda>x. (x - series_mean xs)\<^sup>2) xs)
                         / real (length xs - 1))))"

text \<open>
  \<open>Series.rolling(window=w)\<close> followed by an aggregate \<open>f\<close>: position \<open>i\<close> (from 0)
  aggregates the \<open>w\<close> values ending at \<open>i\<close>; with the default \<open>min_periods = w\<close> the
  positions that have fewer than \<open>w\<close> values behind them are missing.
\<close>

definition rolling :: "nat \<Rightarrow> (real list \<Rightarrow> real option) \<Rightarrow> real list \<Rightarrow> real option list" where
  "rolling window f xs =
     map (\<lambda>i. if Suc i < window then None
              else f (take window (drop (Suc i - window) xs)))
         [0..<length xs]"

text \<open>
  data\_processor.py lines 7--19. An empty frame is returned as it is; otherwise
  \<open>datetime\<close> is the \<open>date\<close> column read as milliseconds, and the rolling mean and
  standard deviation of \<open>sgv\<close> use \<open>window=12\<close>.
\<close>

definition process_glucose_data :: "entry list \<Rightarrow> enriched list" where
  "process_glucose_data df =
     (if df = [] then []
      else
        let avg = rolling 12 (\<lambda>w. Some (series_mean w)) (map sgv df);
            sd = rolling 12 series_std (map sgv df)
        in map (\<lambda>i. entry.extend (df ! i)
                        (enriched.fields (date (df ! i)) (avg ! i) (sd ! i)))
               [0..<length df])"

text \<open>
  The dictionary built by \<open>calculate_statistics\<close>; the keys \<open>'max'\<close> and \<open>'min'\<close> are
  the fields \<open>max_value\<close> and \<open>min_value\<close>.
\<close>

record statistics =
  current :: real
  average :: real
  std :: "real option"
  max_value :: real
  min_value :: real
  in_range :: real

text \<open>
  data\_processor.py lines 22--35, on the \<open>sgv\<close> column of the frame. The empty
  dictionary \<open>{}\<close> returned for an empty frame is \<open>None\<close>. \<open>in_range\<close> is the mean of
  the truth values of \<open>70 <= sgv <= 180\<close> (True as 1, False as 0) times 100.
\<close>

definition calculate_statistics :: "real list \<Rightarrow> statistics option" where
  "calculate_statistics sgvs =
     (case sgvs of
        [] \<Rightarrow> None
      | first # _ \<Rightarrow>
          Some \<lparr> current = first,
                 average = series_mean sgvs,
                 std = series_std sgvs,
                 max_value = Max (set sgvs),
                 min_value = Min (set sgvs),
                 in_range =
                   series_mean (map (\<lambda>v. if 70 \<le> v \<and> v \<le> 180 then 1 else 0) sgvs) * 100 \<rparr>)"

text \<open>
  A frame of 20 samples five minutes apart, as \<open>_generate_sample_data\<close> lays them out,
  with the values 100 to 119.
\<close>

definition sample_series :: "entry list" where
  "sample_series =
     map (\<lambda>n. \<lparr>sgv = real n, date = int n * 300000, direction = ''Flat''\<rparr>) [100..<120]"

section \<open>Python values shared by the modules\<close>

text \<open>
  The truth value Python gives an \<open>Optional[str]\<close> in a condition: \<open>None\<close> and the empty
  string are false.
\<close>

definition truthy :: "string option \<Rightarrow> bool" where
  "truthy s = (case s of None \<Rightarrow> False | Some v \<Rightarrow> v \<noteq> [])"

definition str_of :: "string option \<Rightarrow> string" where
  "str_of s = (case s of None \<Rightarrow> [] | Some v \<Rightarrow> v)"

text \<open>\<open>str.lower()\<close> on the ASCII letters.\<close>

definition lower_char :: "char \<Rightarrow> char" where
  "lower_char c =
     (let n = (of_char c :: nat) in if 65 \<le> n \<and> n \<le> 90 then char_of (n + 32) else c)"

definition lower :: "string \<Rightarrow> string" where
  "lower s = map lower_char s"

text \<open>
  A raised exception: its class and its text. The classes are the built-in ones the code
  raises or lets through and those of the \<open>requests\<close> library; \<open>is_request_exception\<close> is
  what \<open>except requests.RequestException\<close> catches.
\<close>

datatype exc_class =
    Exception | ValueError | KeyError
  | RequestException | ConnectionError | HTTPError | Timeout | InvalidJSONError

datatype raised = Raised (exc_class: exc_class) (exc_text: string)


definition placeholder_url :: string where
  "placeholder_url = ''https://your-nightscout-url.herokuapp.com''"

section \<open>Notification dispatch (utils/alert\_manager.py)\<close>

text \<open>
  The class attributes of \<open>AlertManager\<close> that the methods read and write: the Twilio
  client (the credentials it was built from), the sender number and the mail password.
\<close>

record alert_manager =
  client :: "(string \<times> string) option"
  from_number :: "string option"
  email_password :: "string option"

definition email_sender :: string where
  "email_sender = ''diabetes.monitor.alerts@gmail.com''"

text \<open>The four environment variables read by \<open>_initialize_client\<close>.\<close>

record environ =
  TWILIO_ACCOUNT_SID :: "string option"
  TWILIO_AUTH_TOKEN :: "string option"
  TWILIO_PHONE_NUMBER :: "string option"
  EMAIL_PASSWORD :: "string option"

text \<open>
  What the outside world answers during one call: whether constructing the Twilio client
  raises (the text of the exception), the message id returned by \<open>messages.create\<close> or
  the text of the exception it raises, whether the SMTP session raises, and the clock.
\<close>

record network =
  client_error :: "string option"
  sms_result :: "string + string"
  smtp_error :: "string option"
  now :: int

text \<open>
  The content of an alert message: the wording chosen from the alert type, the glucose
  value and the time of the reading.
\<close>

datatype heading = HIGH_GLUCOSE_ALERT | LOW_GLUCOSE_ALERT | GLUCOSE_ALERT

record message =
  heading :: heading
  glucose :: real
  time :: int

text \<open>
  What a call does besides returning: a line printed, a call of Twilio's
  \<open>messages.create\<close> (sender, recipient, body), an SMTP session that submits a mail
  (sender, recipient, content). The last two are the send attempts of the two channels.
\<close>

datatype effect =
    Print string
  | TwilioCreate string string message
  | SmtpSession string string message

definition heading_of :: "string \<Rightarrow> heading" where
  "heading_of alert_type =
     (if lower alert_type = ''high'' then HIGH_GLUCOSE_ALERT
      else if lower alert_type = ''low'' then LOW_GLUCOSE_ALERT
      else GLUCOSE_ALERT)"

definition make_message :: "network \<Rightarrow> real \<Rightarrow> int option \<Rightarrow> string \<Rightarrow> message" where
  "make_message net glucose_value timestamp alert_type =
     \<lparr> heading = heading_of alert_type,
       glucose = glucose_value,
       time = (case timestamp of Some t \<Rightarrow> t | None \<Rightarrow> now net) \<rparr>"

text \<open>
  alert\_manager.py lines 24--48, \<open>_initialize_client\<close>. The sender number and the mail
  password are stored before the client is built, so they stay when building it raises.
\<close>

definition initialize_client ::
  "environ \<Rightarrow> network \<Rightarrow> alert_manager \<Rightarrow> alert_manager \<times> effect list" where
  "initialize_client env net cls =
     (let cls1 = cls \<lparr> from_number := TWILIO_PHONE_NUMBER env,
                        email_password := EMAIL_PASSWORD env \<rparr>;
          mail = (if truthy (email_password cls1)
                  then [Print ''Email credentials initialized successfully''] else [])
      in if truthy (TWILIO_ACCOUNT_SID env) \<and> truthy (TWILIO_AUTH_TOKEN env) then
           (case client_error net of
              Some e \<Rightarrow>
                (cls1 \<lparr> client := None \<rparr>,
                 [Print (''Failed to initialize alert clients: '' @ e)])
            | None \<Rightarrow>
                (cls1 \<lparr> client := Some (str_of (TWILIO_ACCOUNT_SID env),
                                         str_of (TWILIO_AUTH_TOKEN env)) \<rparr>,
                 Print ''Twilio client initialized successfully'' # mail))
         else
           (cls1 \<lparr> client := None \<rparr>, Print ''Missing Twilio credentials'' # mail))"

text \<open>alert\_manager.py lines 50--61, \<open>can_send_alerts\<close>.\<close>

definition can_send_alerts ::
  "environ \<Rightarrow> network \<Rightarrow> alert_manager \<Rightarrow> bool \<times> alert_manager \<times> effect list" where
  "can_send_alerts env net cls =
     (let (cls1, out) =
            (if client cls = None \<or> email_password cls = None
             then initialize_client env net cls else (cls, []));
          sms_configured = (client cls1 \<noteq> None \<and> from_number cls1 \<noteq> None);
          email_configured = (email_password cls1 \<noteq> None)
      in (sms_configured \<or> email_configured, cls1, out))"

text \<open>
  alert\_manager.py lines 63--218, \<open>send_email_alert\<close>. The two early returns come before
  any network use; the SMTP session is inside the \<open>try\<close>, and an exception there gives
  \<open>False\<close>.
\<close>

definition send_email_alert ::
  "network \<Rightarrow> alert_manager \<Rightarrow> string option \<Rightarrow> real \<Rightarrow> int option \<Rightarrow> string
     \<Rightarrow> bool \<times> effect list" where
  "send_email_alert net cls to_email glucose_value timestamp alert_type =
     (if \<not> truthy to_email then
        (False, [Print ''No recipient email provided.''])
      else if \<not> truthy (email_password cls) then
        (False, [Print ''Email password not configured, cannot send email alerts.''])
      else
        let msg = make_message net glucose_value timestamp alert_type;
            session = SmtpSession email_sender (str_of to_email) msg
        in (case smtp_error net of
              None \<Rightarrow> (True, [session, Print (''Email alert sent to '' @ str_of to_email)])
            | Some e \<Rightarrow> (False, [session, Print (''Failed to send email alert: '' @ e)])))"

text \<open>
  The SMS half of \<open>send_glucose_alert\<close>, lines 243--271: the value of \<open>success\<close> after it,
  the class state and the effects.
\<close>

definition send_sms_part ::
  "environ \<Rightarrow> network \<Rightarrow> alert_manager \<Rightarrow> string option \<Rightarrow> real \<Rightarrow> int option \<Rightarrow> string
     \<Rightarrow> bool \<times> alert_manager \<times> effect list" where
  "send_sms_part env net cls to_number glucose_value timestamp alert_type =
     (if truthy to_number then
        let msg = make_message net glucose_value timestamp alert_type;
            (cls1, out) = (if client cls = None then initialize_client env net cls
                           else (cls, []))
        in if client cls1 \<noteq> None \<and> truthy (from_number cls1) then
             let create = TwilioCreate (str_of (from_number cls1)) (str_of to_number) msg
             in (case sms_result net of
                   Inr sid \<Rightarrow>
                     (True, cls1,
                      out @ [create,
                             Print (''Alert sent to '' @ str_of to_number @ '', SID: '' @ sid)])
                 | Inl e \<Rightarrow>
                     (False, cls1,
                      out @ [create, Print (''Failed to send SMS alert: '' @ e)]))
           else (False, cls1, out @ [Print ''SMS alerts not configured properly''])
      else (False, cls, []))"

text \<open>
  alert\_manager.py lines 220--286, \<open>send_glucose_alert\<close>: the SMS half, then the mail
  half with \<open>success = success or email_sent\<close>, then \<open>return success\<close>.
\<close>

definition send_glucose_alert ::
  "environ \<Rightarrow> network \<Rightarrow> alert_manager \<Rightarrow> string option \<Rightarrow> real \<Rightarrow> int option \<Rightarrow> string
     \<Rightarrow> string option \<Rightarrow> bool \<times> alert_manager \<times> effect list" where
  "send_glucose_alert env net cls to_number glucose_value timestamp alert_type to_email =
     (let (success, cls1, out1) =
            send_sms_part env net cls to_number glucose_value timestamp alert_type;
          (email_sent, out2) =
            (if truthy to_email
             then send_email_alert net cls1 to_email glucose_value timestamp alert_type
             else (False, []))
      in (success \<or> email_sent, cls1, out1 @ out2))"

text \<open>
  The guards under which each channel's send is attempted, read off lines 243 and 259
  (SMS) and lines 274, 81 and 85 (mail), on the class state the call leaves behind.
\<close>

definition sms_attempted :: "alert_manager \<Rightarrow> string option \<Rightarrow> bool" where
  "sms_attempted cls to_number =
     (truthy to_number \<and> client cls \<noteq> None \<and> truthy (from_number cls))"

definition email_attempted :: "alert_manager \<Rightarrow> string option \<Rightarrow> bool" where
  "email_attempted cls to_email = (truthy to_email \<and> truthy (email_password cls))"

fun is_send :: "effect \<Rightarrow> bool" where
  "is_send (Print _) = False"
| "is_send (TwilioCreate _ _ _) = True"
| "is_send (SmtpSession _ _ _) = True"

fun is_sms_send :: "effect \<Rightarrow> bool" where
  "is_sms_send (TwilioCreate _ _ _) = True"
| "is_sms_send _ = False"

fun is_email_send :: "effect \<Rightarrow> bool" where
  "is_email_send (SmtpSession _ _ _) = True"
| "is_email_send _ = False"

text \<open>
  Concrete configurations used to run the dispatch: the initial class attributes, an
  environment without, one with all four and one with only the mail variable, a class state
  holding a Twilio client but no mail password, and the outcomes of the outside
  world (both sends accepted, the SMS send raising, the SMTP session raising, both
  raising).
\<close>

definition initial_manager :: alert_manager where
  "initial_manager = \<lparr> client = None, from_number = None, email_password = None \<rparr>"

definition empty_environ :: environ where
  "empty_environ = \<lparr> TWILIO_ACCOUNT_SID = None, TWILIO_AUTH_TOKEN = None,
                      TWILIO_PHONE_NUMBER = None, EMAIL_PASSWORD = None \<rparr>"

definition full_environ :: environ where
  "full_environ = \<lparr> TWILIO_ACCOUNT_SID = Some ''AC0123'', TWILIO_AUTH_TOKEN = Some ''token'',
                     TWILIO_PHONE_NUMBER = Some ''+15550001111'',
                     EMAIL_PASSWORD = Some ''secret'' \<rparr>"

definition mail_environ :: environ where
  "mail_environ = empty_environ \<lparr> EMAIL_PASSWORD := Some ''secret'' \<rparr>"

definition sms_manager :: alert_manager where
  "sms_manager = \<lparr> client = Some (''AC0123'', ''token''),
                    from_number = Some ''+15550001111'', email_password = None \<rparr>"

definition all_delivered :: network where
  "all_delivered = \<lparr> client_error = None, sms_result = Inr ''SM42'', smtp_error = None,
                      now = 0 \<rparr>"

definition sms_fails :: network where
  "sms_fails = all_delivered \<lparr> sms_result := Inl ''HTTP 500'' \<rparr>"

definition smtp_fails :: network where
  "smtp_fails = all_delivered \<lparr> smtp_error := Some ''connection refused'' \<rparr>"

definition nothing_delivered :: network where
  "nothing_delivered = sms_fails \<lparr> smtp_error := Some ''connection refused'' \<rparr>"

section \<open>Telemetry client (utils/nightscout\_api.py)\<close>




text \<open>
  The HTTP request the client makes and what the \<open>try\<close> body does with it: \<open>requests.get\<close>,
  \<open>raise_for_status\<close>, \<open>response.json()\<close> and the conversion of the decoded records
  either raise an exception or yield the records. That outcome is a parameter.
\<close>

record request =
  url :: string
  params :: "(string \<times> int) list"




section \<open>Persistence gateway (models/models.py, utils/db\_utils.py)\<close>

text \<open>
  The two tables. The primary keys, both called \<open>id\<close> in the source, are \<open>uid\<close> and
  \<open>rid\<close>, the column \<open>notes\<close> is \<open>reading_notes\<close>; times are in microseconds, the
  resolution of \<open>datetime\<close>.
\<close>

record user =
  uid :: nat
  email :: string
  phone_number :: "string option"
  nightscout_url :: string
  created_at :: int

record glucose_reading =
  rid :: nat
  user_id :: nat
  timestamp :: int
  glucose_value :: real
  source :: string
  reading_notes :: "string option"

record database =
  users :: "user list"
  glucose_readings :: "glucose_reading list"

definition next_uid :: "user list \<Rightarrow> nat" where
  "next_uid us = Suc (fold max (map uid us) 0)"

text \<open>
  db\_utils.py lines 8--33, \<open>get_or_create_user\<close>. \<open>db_error\<close> is the text of the
  exception when the session raises inside the \<open>try\<close>; the handler rolls back, so the
  database is unchanged, and raises \<open>Exception\<close>. Otherwise the first user with the
  email is looked up: a missing one is inserted, an existing one gets the new URL when it
  is non-empty and not the placeholder, and the new phone number when it is non-empty.
  The result is the exception or the user, and the database afterwards.
\<close>

definition get_or_create_user ::
  "string option \<Rightarrow> int \<Rightarrow> database \<Rightarrow> string \<Rightarrow> string \<Rightarrow> string option
     \<Rightarrow> (raised + user) \<times> database" where
  "get_or_create_user db_error utcnow db em ns_url phone =
     (case db_error of
        Some e \<Rightarrow> (Inl (Raised Exception (''Database error: '' @ e)), db)
      | None \<Rightarrow>
          (case find (\<lambda>u. email u = em) (users db) of
             None \<Rightarrow>
               let new = \<lparr> uid = next_uid (users db), email = em,
                           phone_number = (if truthy phone then phone else None),
                           nightscout_url = ns_url, created_at = utcnow \<rparr>
               in (Inr new, db \<lparr> users := users db @ [new] \<rparr>)
           | Some found \<Rightarrow>
               let u1 = (if ns_url \<noteq> [] \<and> ns_url \<noteq> placeholder_url
                         then found \<lparr> nightscout_url := ns_url \<rparr> else found);
                   u2 = (if truthy phone then u1 \<lparr> phone_number := phone \<rparr> else u1)
               in (Inr u2,
                   db \<lparr> users := map (\<lambda>u. if uid u = uid found then u2 else u) (users db) \<rparr>)))"

text \<open>
  db\_utils.py lines 63--77, \<open>get_user_readings\<close>: the readings of the user with
  \<open>timestamp >= utcnow - hours\<close>, ordered by timestamp descending. A failing query
  raises \<open>Exception\<close>.
\<close>

definition get_user_readings ::
  "string option \<Rightarrow> int \<Rightarrow> database \<Rightarrow> nat \<Rightarrow> int \<Rightarrow> raised + glucose_reading list" where
  "get_user_readings db_error utcnow db u hours =
     (case db_error of
        Some e \<Rightarrow> Inl (Raised Exception (''Failed to fetch glucose readings: '' @ e))
      | None \<Rightarrow>
          let since = utcnow - hours * 3600000000
          in Inr (sort_key (\<lambda>r. - timestamp r)
                    (filter (\<lambda>r. user_id r = u \<and> timestamp r \<ge> since)
                            (glucose_readings db))))"

text \<open>
  A concrete database: two users, and for the first user a reading one hour before, one
  thirty hours before and one dated one hour after the clock value
  \<open>360000000000\<close> (hour 100), for the second user a reading one hour before it.
\<close>

definition ann :: user where
  "ann = \<lparr> uid = 1, email = ''ann@example.com'', phone_number = Some ''+15552223333'',
           nightscout_url = ''https://ann.example.org'', created_at = 7 \<rparr>"

definition bob :: user where
  "bob = \<lparr> uid = 2, email = ''bob@example.com'', phone_number = None,
           nightscout_url = placeholder_url, created_at = 9 \<rparr>"

definition reading_recent :: glucose_reading where
  "reading_recent = \<lparr> rid = 1, user_id = 1, timestamp = 356400000000, glucose_value = 110,
                      source = ''nightscout'', reading_notes = None \<rparr>"

definition reading_old :: glucose_reading where
  "reading_old = \<lparr> rid = 2, user_id = 1, timestamp = 252000000000, glucose_value = 95,
                   source = ''nightscout'', reading_notes = None \<rparr>"

definition reading_future :: glucose_reading where
  "reading_future = \<lparr> rid = 3, user_id = 1, timestamp = 363600000000, glucose_value = 140,
                      source = ''manual'', reading_notes = Some ''after lunch'' \<rparr>"

definition reading_other :: glucose_reading where
  "reading_other = \<lparr> rid = 4, user_id = 2, timestamp = 356400000000, glucose_value = 101,
                     source = ''nightscout'', reading_notes = None \<rparr>"

definition sample_db :: database where
  "sample_db = \<lparr> users = [ann, bob],
                 glucose_readings = [reading_recent, reading_old, reading_future,
                                     reading_other] \<rparr>"

section \<open>Theorems\<close>

text \<open>
  C2: with low < high, the classification is Low exactly when the value is below the low
  bound, High exactly when it is above the high bound and InRange otherwise; a value equal
  to a bound is InRange; the four sample classifications of the specification hold, the
  fixed-bound status of the display agrees with them, and an alert is sent only when the
  classification is Low or High.
\<close>

theorem classify_spec:
  assumes "low < high"
  shows "(classify v low high = Low \<longleftrightarrow> v < low)
       \<and> (classify v low high = High \<longleftrightarrow> v > high)
       \<and> (classify v low high = InRange \<longleftrightarrow> low \<le> v \<and> v \<le> high)
       \<and> classify low low high = InRange
       \<and> classify high low high = InRange
       \<and> classify 150 70 180 = InRange
       \<and> classify 70 70 180 = InRange
       \<and> classify 69.9 70 180 = Low
       \<and> classify 180.1 70 180 = High
       \<and> display_status v = classify v 70 180
       \<and> (alert_decision en rc cur cs v low high \<noteq> None
            \<longrightarrow> classify v low high = Low \<or> classify v low high = High)
       \<and> (alert_decision en rc cur cs v low high = Some ''low''
            \<longrightarrow> classify v low high = Low)
       \<and> (alert_decision en rc cur cs v low high = Some ''high''
            \<longrightarrow> classify v low high = High)"
  using assms by (auto simp: classify_def display_status_def alert_decision_def)

theorem classify_spec_witness:
  "(70::real) < 180
   \<and> classify 69.9 70 180 = Low
   \<and> classify 180.1 70 180 = High
   \<and> classify 180 70 180 = InRange
   \<and> alert_decision True True True True 200 70 180 = Some ''high''
   \<and> alert_decision True True True True 50 70 180 = Some ''low''
   \<and> alert_decision True True True True 70 70 180 = None"
proof -
  have h: "(70::real) < 180" by simp
  note t = classify_spec [OF h]
  have "classify 200 70 180 = High" using t [of 200] by simp
  moreover have "classify 50 70 180 = Low" using t [of 50] by simp
  ultimately show ?thesis
    using t [of 0] by (simp add: alert_decision_def)
qed

subsection \<open>Statistics\<close>

text \<open>
  C5: on an empty series \<open>calculate_statistics\<close> returns the explicit no-data result (the
  empty dictionary), which holds no number at all, and the empty series is the only input
  with that result.
\<close>

theorem calculate_statistics_empty:
  "calculate_statistics [] = None \<and> (calculate_statistics sgvs = None) = (sgvs = [])"
  by (simp add: calculate_statistics_def split: list.split)

subsection \<open>Rolling window\<close>

lemma rolling_nth:
  "i < length xs \<Longrightarrow>
   rolling w f xs ! i = (if Suc i < w then None else f (take w (drop (Suc i - w) xs)))"
  by (simp add: rolling_def)

lemma process_glucose_data_length: "length (process_glucose_data df) = length df"
  by (simp add: process_glucose_data_def Let_def)

lemma process_glucose_data_nth:
  assumes "i < length df"
  shows "rolling_avg (process_glucose_data df ! i)
           = rolling 12 (\<lambda>w. Some (series_mean w)) (map sgv df) ! i"
    and "rolling_std (process_glucose_data df ! i) = rolling 12 series_std (map sgv df) ! i"
    and "sgv (process_glucose_data df ! i) = sgv (df ! i)"
  using assms
  by (auto simp: process_glucose_data_def Let_def entry.defs enriched.defs)

text \<open>
  C4: \<open>process_glucose_data\<close> keeps the number of rows and attaches a rolling mean and a
  rolling standard deviation over the trailing 12 samples: at each of the first 11
  positions both are absent, and at every later position both are defined, the mean being
  the sum of exactly the 12 samples ending there over 12 and the standard deviation the
  square root of their summed squared deviations from that mean over 11. So on a
  20-sample series positions 12 to 20 (indices 11 to 19) carry defined values.
\<close>

theorem process_glucose_data_window:
  "length (process_glucose_data df) = length df
   \<and> (\<forall>i < length df.
        sgv (process_glucose_data df ! i) = sgv (df ! i)
        \<and> (i < 11 \<longrightarrow> rolling_avg (process_glucose_data df ! i) = None
                     \<and> rolling_std (process_glucose_data df ! i) = None)
        \<and> (11 \<le> i \<longrightarrow>
              length (take 12 (drop (i - 11) df)) = 12
            \<and> rolling_avg (process_glucose_data df ! i)
                = Some (sum_list (map sgv (take 12 (drop (i - 11) df))) / 12)
            \<and> rolling_std (process_glucose_data df ! i)
                = Some (sqrt (sum_list
                          (map (\<lambda>x. (x - sum_list (map sgv (take 12 (drop (i - 11) df))) / 12)\<^sup>2)
                               (map sgv (take 12 (drop (i - 11) df))))
                        / 11))))
   \<and> (length df = 20 \<longrightarrow>
        (\<forall>i \<in> {11..<20}. rolling_avg (process_glucose_data df ! i) \<noteq> None
                        \<and> rolling_std (process_glucose_data df ! i) \<noteq> None))"
proof -
  have row: "rolling_avg (process_glucose_data df ! i)
                = Some (sum_list (map sgv (take 12 (drop (i - 11) df))) / 12)
            \<and> rolling_std (process_glucose_data df ! i)
                = Some (sqrt (sum_list
                          (map (\<lambda>x. (x - sum_list (map sgv (take 12 (drop (i - 11) df))) / 12)\<^sup>2)
                               (map sgv (take 12 (drop (i - 11) df))))
                        / 11))"
    if "i < length df" "11 \<le> i" for i
  proof -
    let ?w = "map sgv (take 12 (drop (i - 11) df))"
    have len: "length ?w = 12" using that by simp
    have ra: "rolling_avg (process_glucose_data df ! i) = Some (series_mean ?w)"
      using that by (simp add: process_glucose_data_nth rolling_nth take_map drop_map)
    have rs: "rolling_std (process_glucose_data df ! i) = series_std ?w"
      using that by (simp add: process_glucose_data_nth rolling_nth take_map drop_map)
    have m: "series_mean ?w = sum_list ?w / 12"
      unfolding series_mean_def len by simp
    have s: "series_std ?w
               = Some (sqrt (sum_list (map (\<lambda>x. (x - sum_list ?w / 12)\<^sup>2) ?w) / 11))"
      unfolding series_std_def m len by simp
    show ?thesis
      by (simp only: ra rs m s simp_thms)
  qed
  have early: "rolling_avg (process_glucose_data df ! i) = None
               \<and> rolling_std (process_glucose_data df ! i) = None"
    if "i < length df" "i < 11" for i
    using that by (simp add: process_glucose_data_nth rolling_nth)
  have len12: "length (take 12 (drop (i - 11) df)) = 12" if "i < length df" "11 \<le> i" for i
    using that by simp
  have keep: "sgv (process_glucose_data df ! i) = sgv (df ! i)" if "i < length df" for i
    using that by (simp add: process_glucose_data_nth)
  have twenty: "rolling_avg (process_glucose_data df ! i) \<noteq> None
                \<and> rolling_std (process_glucose_data df ! i) \<noteq> None"
    if "length df = 20" "i \<in> {11..<20}" for i
    using row [of i] that by simp
  show ?thesis
    using process_glucose_data_length row early len12 keep twenty by blast
qed

theorem process_glucose_data_window_witness:
  "length sample_series = 20
   \<and> (10::nat) < 20 \<and> (10::nat) < 11 \<and> (11::nat) \<le> 19 \<and> (19::nat) \<in> {11..<20}
   \<and> rolling_avg (process_glucose_data sample_series ! 10) = None
   \<and> rolling_std (process_glucose_data sample_series ! 10) = None
   \<and> rolling_avg (process_glucose_data sample_series ! 11) = Some (211 / 2)
   \<and> rolling_std (process_glucose_data sample_series ! 11) = Some (sqrt 13)
   \<and> rolling_avg (process_glucose_data sample_series ! 19) = Some (227 / 2)
   \<and> rolling_std (process_glucose_data sample_series ! 19) = Some (sqrt 13)"
proof -
  have len: "length sample_series = 20" by (simp add: sample_series_def)
  note t = process_glucose_data_window [of sample_series]
  from t have q: "\<forall>i < length sample_series.
        sgv (process_glucose_data sample_series ! i) = sgv (sample_series ! i)
        \<and> (i < 11 \<longrightarrow> rolling_avg (process_glucose_data sample_series ! i) = None
                     \<and> rolling_std (process_glucose_data sample_series ! i) = None)
        \<and> (11 \<le> i \<longrightarrow>
              length (take 12 (drop (i - 11) sample_series)) = 12
            \<and> rolling_avg (process_glucose_data sample_series ! i)
                = Some (sum_list (map sgv (take 12 (drop (i - 11) sample_series))) / 12)
            \<and> rolling_std (process_glucose_data sample_series ! i)
                = Some (sqrt (sum_list
                          (map (\<lambda>x. (x - sum_list (map sgv (take 12 (drop (i - 11)
                                                       sample_series))) / 12)\<^sup>2)
                               (map sgv (take 12 (drop (i - 11) sample_series))))
                        / 11)))"
    by blast
  have i10: "(10::nat) < length sample_series" and i11: "(11::nat) < length sample_series"
    and i19: "(19::nat) < length sample_series"
    by (simp_all add: len)
  have a: "rolling_avg (process_glucose_data sample_series ! 10) = None"
          "rolling_std (process_glucose_data sample_series ! 10) = None"
    using q [rule_format, OF i10] by fastforce+
  have w11: "map sgv (take 12 (drop (11 - 11) sample_series)) = map real [100..<112]"
    by (simp add: sample_series_def take_map drop_map take_upt comp_def)
  have w19: "map sgv (take 12 (drop (19 - 11) sample_series)) = map real [108..<120]"
    by (simp add: sample_series_def take_map drop_map drop_upt take_upt comp_def)
  have s11: "sum_list (map real [100..<112]) / 12 = 211 / 2"
    by (simp add: upt_rec)
  have s19: "sum_list (map real [108..<120]) / 12 = 227 / 2"
    by (simp add: upt_rec)
  have d11: "sum_list (map (\<lambda>x. (x - 211 / 2)\<^sup>2) (map real [100..<112])) / 11 = 13"
    by (simp add: upt_rec power2_eq_square)
  have d19: "sum_list (map (\<lambda>x. (x - 227 / 2)\<^sup>2) (map real [108..<120])) / 11 = 13"
    by (simp add: upt_rec power2_eq_square)
  have b11: "rolling_avg (process_glucose_data sample_series ! 11) = Some (211 / 2)"
            "rolling_std (process_glucose_data sample_series ! 11) = Some (sqrt 13)"
    using q [rule_format, OF i11] unfolding w11 s11 d11 by fastforce+
  have b19: "rolling_avg (process_glucose_data sample_series ! 19) = Some (227 / 2)"
            "rolling_std (process_glucose_data sample_series ! 19) = Some (sqrt 13)"
    using q [rule_format, OF i19] unfolding w19 s19 d19 by fastforce+
  show ?thesis using a b11 b19 len by simp
qed

subsection \<open>Notification dispatch\<close>

lemma initialize_client_prints:
  "initialize_client env net cls = (cls1, out) \<Longrightarrow> \<not> list_ex is_send out"
  by (auto simp: initialize_client_def Let_def split: if_splits option.splits)

lemma no_send_no_channel:
  "\<not> list_ex is_send out \<Longrightarrow> \<not> list_ex is_sms_send out \<and> \<not> list_ex is_email_send out"
proof (induction out)
  case Nil
  then show ?case by simp
next
  case (Cons e out)
  then show ?case by (cases e) auto
qed

lemma send_sms_part_result:
  assumes "send_sms_part env net cls to_number v ts ty = (ok, cls1, out)"
  shows "ok = (sms_attempted cls1 to_number \<and> \<not> isl (sms_result net))"
    and "list_ex is_sms_send out = sms_attempted cls1 to_number"
    and "\<not> list_ex is_email_send out"
    and "sms_attempted cls1 to_number \<Longrightarrow> isl (sms_result net) \<Longrightarrow>
           Print (''Failed to send SMS alert: '' @ projl (sms_result net)) \<in> set out"
    and "truthy to_number \<Longrightarrow> \<not> sms_attempted cls1 to_number \<Longrightarrow>
           Print ''SMS alerts not configured properly'' \<in> set out"
proof -
  obtain c o1 where i: "(if client cls = None then initialize_client env net cls
                          else (cls, [])) = (c, o1)"
    by (cases "if client cls = None then initialize_client env net cls else (cls, [])") auto
  have "\<not> list_ex is_send o1"
    using i initialize_client_prints by (auto split: if_splits)
  then have p: "\<not> list_ex is_sms_send o1" "\<not> list_ex is_email_send o1"
    using no_send_no_channel by blast+
  show "ok = (sms_attempted cls1 to_number \<and> \<not> isl (sms_result net))"
    using assms i
    by (auto simp: send_sms_part_def sms_attempted_def Let_def
             split: if_splits sum.splits)
  show "list_ex is_sms_send out = sms_attempted cls1 to_number"
    using assms i p
    by (auto simp: send_sms_part_def sms_attempted_def Let_def list_ex_iff
             split: if_splits sum.splits)
  show "\<not> list_ex is_email_send out"
    using assms i p
    by (auto simp: send_sms_part_def Let_def list_ex_iff split: if_splits sum.splits)
  show "sms_attempted cls1 to_number \<Longrightarrow> isl (sms_result net) \<Longrightarrow>
           Print (''Failed to send SMS alert: '' @ projl (sms_result net)) \<in> set out"
    using assms i
    by (auto simp: send_sms_part_def sms_attempted_def Let_def
             split: if_splits sum.splits)
  show "truthy to_number \<Longrightarrow> \<not> sms_attempted cls1 to_number \<Longrightarrow>
           Print ''SMS alerts not configured properly'' \<in> set out"
    using assms i
    by (auto simp: send_sms_part_def sms_attempted_def Let_def
             split: if_splits sum.splits)
qed

lemma send_glucose_alert_parts:
  assumes "send_glucose_alert env net cls to_number v ts ty to_email = (ok, cls', out)"
  obtains s out1 sent out2 where
    "send_sms_part env net cls to_number v ts ty = (s, cls', out1)"
    "(if truthy to_email then send_email_alert net cls' to_email v ts ty else (False, []))
       = (sent, out2)"
    "ok = (s \<or> sent)" "out = out1 @ out2"
  using assms
  by (auto simp: send_glucose_alert_def Let_def split: prod.splits)

lemma email_half_result:
  assumes "(if truthy to_email then send_email_alert net cls to_email v ts ty else (False, []))
             = (sent, out)"
  shows "sent = (email_attempted cls to_email \<and> smtp_error net = None)"
    and "list_ex is_email_send out = email_attempted cls to_email"
    and "\<not> list_ex is_sms_send out"
    and "truthy to_email \<Longrightarrow> \<not> truthy (email_password cls) \<Longrightarrow>
           Print ''Email password not configured, cannot send email alerts.'' \<in> set out"
    and "email_attempted cls to_email \<Longrightarrow> smtp_error net \<noteq> None \<Longrightarrow>
           Print (''Failed to send email alert: '' @ the (smtp_error net)) \<in> set out"
  using assms
  by (auto simp: send_email_alert_def email_attempted_def Let_def
           split: if_splits option.splits)

lemma send_sms_part_state:
  assumes "send_sms_part env net cls to_number v ts ty = (ok, cls1, out)"
  shows "cls1 = (if truthy to_number \<and> client cls = None
                 then fst (initialize_client env net cls) else cls)"
  using assms
  by (auto simp: send_sms_part_def Let_def split: if_splits sum.splits prod.splits)

text \<open>
  What a dispatch does on any input. The class state afterwards is the given one, or the
  one \<open>_initialize_client\<close> loads when a phone number is given and no client exists. On
  that state, an SMS send is made exactly when the SMS guards hold and a mail send exactly
  when the mail guards hold, and the result is success exactly when at least one send
  that was made succeeded. A failing send on one channel does not stop the other.
\<close>

lemma send_glucose_alert_result:
  assumes "send_glucose_alert env net cls to_number v ts ty to_email = (ok, cls', out)"
  shows "cls' = (if truthy to_number \<and> client cls = None
                 then fst (initialize_client env net cls) else cls)
       \<and> list_ex is_sms_send out = sms_attempted cls' to_number
       \<and> list_ex is_email_send out = email_attempted cls' to_email
       \<and> ok = ((sms_attempted cls' to_number \<and> \<not> isl (sms_result net))
               \<or> (email_attempted cls' to_email \<and> smtp_error net = None))
       \<and> (sms_attempted cls' to_number \<and> isl (sms_result net)
            \<and> email_attempted cls' to_email \<and> smtp_error net = None
          \<longrightarrow> ok \<and> list_ex is_sms_send out \<and> list_ex is_email_send out
              \<and> Print (''Failed to send SMS alert: '' @ projl (sms_result net)) \<in> set out)
       \<and> (sms_attempted cls' to_number \<and> \<not> isl (sms_result net)
            \<and> email_attempted cls' to_email \<and> smtp_error net \<noteq> None
          \<longrightarrow> ok \<and> list_ex is_sms_send out \<and> list_ex is_email_send out
              \<and> Print (''Failed to send email alert: '' @ the (smtp_error net)) \<in> set out)"
proof -
  from assms obtain s out1 sent out2 where
    sms: "send_sms_part env net cls to_number v ts ty = (s, cls', out1)" and
    mail: "(if truthy to_email then send_email_alert net cls' to_email v ts ty
            else (False, [])) = (sent, out2)" and
    ok: "ok = (s \<or> sent)" and out: "out = out1 @ out2"
    by (rule send_glucose_alert_parts)
  note a = send_sms_part_result [OF sms]
  note b = email_half_result [OF mail]
  note 0 = send_sms_part_state [OF sms]
  have 1: "list_ex is_sms_send out = sms_attempted cls' to_number"
    using a(2) b(3) by (simp add: out)
  have 2: "list_ex is_email_send out = email_attempted cls' to_email"
    using a(3) b(2) by (simp add: out)
  have 3: "ok = ((sms_attempted cls' to_number \<and> \<not> isl (sms_result net))
               \<or> (email_attempted cls' to_email \<and> smtp_error net = None))"
    using a(1) b(1) ok by simp
  have 4: "sms_attempted cls' to_number \<Longrightarrow> isl (sms_result net) \<Longrightarrow>
           Print (''Failed to send SMS alert: '' @ projl (sms_result net)) \<in> set out"
    using a(4) by (simp add: out)
  have 5: "email_attempted cls' to_email \<Longrightarrow> smtp_error net \<noteq> None \<Longrightarrow>
           Print (''Failed to send email alert: '' @ the (smtp_error net)) \<in> set out"
    using b(5) by (simp add: out)
  show ?thesis using 0 1 2 3 4 5 by blast
qed

text \<open>
  C6 (amended): when no channel is configured (for each channel the recipient or its
  credentials are missing), \<open>send_glucose_alert\<close> returns \<open>False\<close>, never success, and
  makes no send attempt; the value returned is the bare boolean. With no Twilio client
  yet and neither a sender number nor a mail password in the environment,
  \<open>can_send_alerts\<close> is \<open>False\<close>.
\<close>

theorem send_glucose_alert_unconfigured:
  assumes "send_glucose_alert env net cls to_number v ts ty to_email = (ok, cls', out)"
    and "\<not> sms_attempted cls' to_number"
    and "\<not> email_attempted cls' to_email"
  shows "\<not> ok \<and> \<not> list_ex is_sms_send out \<and> \<not> list_ex is_email_send out
       \<and> (client cls = None \<and> TWILIO_PHONE_NUMBER env = None \<and> EMAIL_PASSWORD env = None
            \<longrightarrow> \<not> fst (can_send_alerts env net cls))"
proof -
  from assms(1) obtain s out1 sent out2 where
    sms: "send_sms_part env net cls to_number v ts ty = (s, cls', out1)" and
    mail: "(if truthy to_email then send_email_alert net cls' to_email v ts ty
            else (False, [])) = (sent, out2)" and
    ok: "ok = (s \<or> sent)" and out: "out = out1 @ out2"
    by (rule send_glucose_alert_parts)
  note a = send_sms_part_result [OF sms]
  note b = email_half_result [OF mail]
  have 1: "\<not> ok" using a(1) b(1) ok assms(2,3) by simp
  have 2: "\<not> list_ex is_sms_send out" using a(2) b(3) assms(2) by (simp add: out)
  have 3: "\<not> list_ex is_email_send out" using a(3) b(2) assms(3) by (simp add: out)
  have 4: "client cls = None \<and> TWILIO_PHONE_NUMBER env = None \<and> EMAIL_PASSWORD env = None
            \<longrightarrow> \<not> fst (can_send_alerts env net cls)"
    by (auto simp: can_send_alerts_def initialize_client_def Let_def
             split: option.splits prod.splits if_splits)
  show ?thesis using 1 2 3 4 by blast
qed

text \<open>
  C7 (amended): a channel whose configuration is missing is skipped: no send is attempted
  on it, a line saying so is printed, and the returned boolean is decided by the other
  channel alone. The returned value is a boolean only.
\<close>

theorem send_glucose_alert_skips_unconfigured:
  assumes "send_glucose_alert env net cls to_number v ts ty to_email = (ok, cls', out)"
  shows "(truthy to_email \<and> \<not> truthy (email_password cls')
            \<longrightarrow> \<not> list_ex is_email_send out
              \<and> Print ''Email password not configured, cannot send email alerts.'' \<in> set out
              \<and> ok = (sms_attempted cls' to_number \<and> \<not> isl (sms_result net)))
       \<and> (truthy to_number \<and> \<not> (client cls' \<noteq> None \<and> truthy (from_number cls'))
            \<longrightarrow> \<not> list_ex is_sms_send out
              \<and> Print ''SMS alerts not configured properly'' \<in> set out
              \<and> ok = (email_attempted cls' to_email \<and> smtp_error net = None))"
proof -
  from assms obtain s out1 sent out2 where
    sms: "send_sms_part env net cls to_number v ts ty = (s, cls', out1)" and
    mail: "(if truthy to_email then send_email_alert net cls' to_email v ts ty
            else (False, [])) = (sent, out2)" and
    ok: "ok = (s \<or> sent)" and out: "out = out1 @ out2"
    by (rule send_glucose_alert_parts)
  note a = send_sms_part_result [OF sms]
  note b = email_half_result [OF mail]
  have e: "truthy to_email \<and> \<not> truthy (email_password cls')
            \<longrightarrow> \<not> list_ex is_email_send out
              \<and> Print ''Email password not configured, cannot send email alerts.'' \<in> set out
              \<and> ok = (sms_attempted cls' to_number \<and> \<not> isl (sms_result net))"
    using a(1,3) b(1,2,4) ok by (auto simp: out email_attempted_def)
  have m: "truthy to_number \<and> \<not> (client cls' \<noteq> None \<and> truthy (from_number cls'))
            \<longrightarrow> \<not> list_ex is_sms_send out
              \<and> Print ''SMS alerts not configured properly'' \<in> set out
              \<and> ok = (email_attempted cls' to_email \<and> smtp_error net = None)"
    using a(1,2,5) b(1,3) ok by (auto simp: out sms_attempted_def)
  show ?thesis using e m by blast
qed

lemma heading_of_high: "heading_of ''high'' = HIGH_GLUCOSE_ALERT"
  by (simp add: heading_of_def lower_def lower_char_def)

lemmas dispatch_defs =
  send_glucose_alert_def send_sms_part_def send_email_alert_def initialize_client_def
  make_message_def heading_of_high truthy_def str_of_def Let_def
  initial_manager_def empty_environ_def full_environ_def
  all_delivered_def sms_fails_def smtp_fails_def nothing_delivered_def
  mail_environ_def sms_manager_def email_sender_def

text \<open>
  One channel failing and the other succeeding: with all credentials in the environment,
  the SMS send raising and the mail accepted, both sends are made, the SMS failure is
  printed and the result is success.
\<close>

lemma send_glucose_alert_sms_fails_mail_sent:
  "send_glucose_alert full_environ sms_fails initial_manager
       (Some ''+15552223333'') 250 None ''high'' (Some ''user@example.com'')
     = (True,
        \<lparr> client = Some (''AC0123'', ''token''), from_number = Some ''+15550001111'',
          email_password = Some ''secret'' \<rparr>,
        [Print ''Twilio client initialized successfully'',
         Print ''Email credentials initialized successfully'',
         TwilioCreate ''+15550001111'' ''+15552223333''
           \<lparr> heading = HIGH_GLUCOSE_ALERT, glucose = 250, time = 0 \<rparr>,
         Print ''Failed to send SMS alert: HTTP 500'',
         SmtpSession email_sender ''user@example.com''
           \<lparr> heading = HIGH_GLUCOSE_ALERT, glucose = 250, time = 0 \<rparr>,
         Print ''Email alert sent to user@example.com''])"
  by (simp add: dispatch_defs)


theorem send_glucose_alert_unconfigured_witness:
  "send_glucose_alert empty_environ all_delivered initial_manager
       (Some ''+15552223333'') 250 None ''high'' (Some ''user@example.com'')
     = (False, initial_manager,
        [Print ''Missing Twilio credentials'',
         Print ''SMS alerts not configured properly'',
         Print ''Email password not configured, cannot send email alerts.''])
   \<and> \<not> sms_attempted initial_manager (Some ''+15552223333'')
   \<and> \<not> email_attempted initial_manager (Some ''user@example.com'')
   \<and> client initial_manager = None \<and> TWILIO_PHONE_NUMBER empty_environ = None
   \<and> EMAIL_PASSWORD empty_environ = None
   \<and> \<not> fst (can_send_alerts empty_environ all_delivered initial_manager)"
proof -
  let ?out = "[Print ''Missing Twilio credentials'',
         Print ''SMS alerts not configured properly'',
         Print ''Email password not configured, cannot send email alerts.'']"
  have run: "send_glucose_alert empty_environ all_delivered initial_manager
       (Some ''+15552223333'') 250 None ''high'' (Some ''user@example.com'')
     = (False, initial_manager, ?out)"
    by (simp add: dispatch_defs)
  have pre: "\<not> sms_attempted initial_manager (Some ''+15552223333'')"
       "\<not> email_attempted initial_manager (Some ''user@example.com'')"
    by (simp_all add: sms_attempted_def email_attempted_def truthy_def initial_manager_def)
  have env: "client initial_manager = None" "TWILIO_PHONE_NUMBER empty_environ = None"
       "EMAIL_PASSWORD empty_environ = None"
    by (simp_all add: initial_manager_def empty_environ_def)
  from send_glucose_alert_unconfigured [OF run pre] env
  have "\<not> fst (can_send_alerts empty_environ all_delivered initial_manager)" by blast
  with run pre env show ?thesis by blast
qed

theorem send_glucose_alert_no_reason_counterexample:
  "send_glucose_alert empty_environ all_delivered initial_manager
       (Some ''+15552223333'') 250 None ''high'' (Some ''user@example.com'')
     = (False, initial_manager,
        [Print ''Missing Twilio credentials'',
         Print ''SMS alerts not configured properly'',
         Print ''Email password not configured, cannot send email alerts.''])
   \<and> fst (send_glucose_alert empty_environ all_delivered initial_manager
            (Some ''+15552223333'') 250 None ''high'' (Some ''user@example.com''))
     = fst (send_glucose_alert full_environ nothing_delivered initial_manager
            (Some ''+15552223333'') 250 None ''high'' (Some ''user@example.com''))
   \<and> send_glucose_alert empty_environ all_delivered initial_manager
        None 250 None ''high'' None = (False, initial_manager, [])"
  by (simp add: dispatch_defs)

theorem send_glucose_alert_skips_unconfigured_witness:
  "send_glucose_alert empty_environ all_delivered sms_manager
       (Some ''+15552223333'') 250 None ''high'' (Some ''user@example.com'')
     = (True, sms_manager,
        [TwilioCreate ''+15550001111'' ''+15552223333''
           \<lparr> heading = HIGH_GLUCOSE_ALERT, glucose = 250, time = 0 \<rparr>,
         Print ''Alert sent to +15552223333, SID: SM42'',
         Print ''Email password not configured, cannot send email alerts.''])
   \<and> truthy (Some ''user@example.com'') \<and> \<not> truthy (email_password sms_manager)
   \<and> sms_attempted sms_manager (Some ''+15552223333'')
   \<and> \<not> isl (sms_result all_delivered)
   \<and> send_glucose_alert mail_environ all_delivered initial_manager
       (Some ''+15552223333'') 250 None ''high'' (Some ''user@example.com'')
     = (True, initial_manager \<lparr> email_password := Some ''secret'' \<rparr>,
        [Print ''Missing Twilio credentials'',
         Print ''Email credentials initialized successfully'',
         Print ''SMS alerts not configured properly'',
         SmtpSession email_sender ''user@example.com''
           \<lparr> heading = HIGH_GLUCOSE_ALERT, glucose = 250, time = 0 \<rparr>,
         Print ''Email alert sent to user@example.com''])
   \<and> truthy (Some ''+15552223333'')
   \<and> \<not> (client (initial_manager \<lparr> email_password := Some ''secret'' \<rparr>) \<noteq> None
          \<and> truthy (from_number (initial_manager \<lparr> email_password := Some ''secret'' \<rparr>)))
   \<and> email_attempted (initial_manager \<lparr> email_password := Some ''secret'' \<rparr>)
         (Some ''user@example.com'')
   \<and> smtp_error all_delivered = None"
proof -
  let ?out1 = "[TwilioCreate ''+15550001111'' ''+15552223333''
           \<lparr> heading = HIGH_GLUCOSE_ALERT, glucose = 250, time = 0 \<rparr>,
         Print ''Alert sent to +15552223333, SID: SM42'',
         Print ''Email password not configured, cannot send email alerts.'']"
  let ?cls2 = "initial_manager \<lparr> email_password := Some ''secret'' \<rparr>"
  let ?out2 = "[Print ''Missing Twilio credentials'',
         Print ''Email credentials initialized successfully'',
         Print ''SMS alerts not configured properly'',
         SmtpSession email_sender ''user@example.com''
           \<lparr> heading = HIGH_GLUCOSE_ALERT, glucose = 250, time = 0 \<rparr>,
         Print ''Email alert sent to user@example.com'']"
  have run1: "send_glucose_alert empty_environ all_delivered sms_manager
       (Some ''+15552223333'') 250 None ''high'' (Some ''user@example.com'')
     = (True, sms_manager, ?out1)"
    by (simp add: dispatch_defs)
  have run2: "send_glucose_alert mail_environ all_delivered initial_manager
       (Some ''+15552223333'') 250 None ''high'' (Some ''user@example.com'')
     = (True, ?cls2, ?out2)"
    by (simp add: dispatch_defs)
  have pre1: "truthy (Some ''user@example.com'') \<and> \<not> truthy (email_password sms_manager)"
    by (simp add: truthy_def sms_manager_def)
  have pre2: "truthy (Some ''+15552223333'')
              \<and> \<not> (client ?cls2 \<noteq> None \<and> truthy (from_number ?cls2))"
    by (simp add: truthy_def initial_manager_def)
  from send_glucose_alert_skips_unconfigured [OF run1] pre1
  have c1: "True = (sms_attempted sms_manager (Some ''+15552223333'')
                    \<and> \<not> isl (sms_result all_delivered))"
    by blast
  from send_glucose_alert_skips_unconfigured [OF run2] pre2
  have c2: "True = (email_attempted ?cls2 (Some ''user@example.com'')
                    \<and> smtp_error all_delivered = None)"
    by blast
  from run1 run2 pre1 pre2 c1 c2 show ?thesis by blast
qed

theorem send_glucose_alert_indistinct_counterexample:
  "fst (send_glucose_alert empty_environ all_delivered initial_manager
          None 250 None ''high'' (Some ''user@example.com''))
     = fst (send_glucose_alert empty_environ smtp_fails
          (initial_manager \<lparr> email_password := Some ''secret'' \<rparr>)
          None 250 None ''high'' (Some ''user@example.com''))
   \<and> \<not> list_ex is_email_send
         (snd (snd (send_glucose_alert empty_environ all_delivered initial_manager
                      None 250 None ''high'' (Some ''user@example.com''))))
   \<and> list_ex is_email_send
         (snd (snd (send_glucose_alert empty_environ smtp_fails
                      (initial_manager \<lparr> email_password := Some ''secret'' \<rparr>)
                      None 250 None ''high'' (Some ''user@example.com''))))"
  by (simp add: dispatch_defs)

subsection \<open>Telemetry client\<close>




subsection \<open>Persistence gateway\<close>

lemma sorted_desc_sort_key:
  "sorted_wrt (\<lambda>a b. timestamp b \<le> timestamp a) (sort_key (\<lambda>r. - timestamp r) rs)"
proof -
  have "sorted (map (\<lambda>r. - timestamp r) (sort_key (\<lambda>r. - timestamp r) rs))"
    by (rule sorted_sort_key)
  then show ?thesis
    by (simp add: sorted_map sorted_wrt_iff_nth_less)
qed

text \<open>
  C9 (amended): when the query does not fail, \<open>get_user_readings\<close> returns exactly the
  stored readings of the user whose timestamp is at or after \<open>utcnow - hours\<close> (there is
  no upper bound, so readings dated after \<open>utcnow\<close> are returned too), ordered by
  timestamp descending; and \<open>calculate_statistics\<close> takes \<open>current\<close> from the first
  element of its series.
\<close>

theorem get_user_readings_window:
  "\<exists>rs. get_user_readings None utcnow db u hours = Inr rs
        \<and> mset rs = filter_mset (\<lambda>r. user_id r = u \<and> utcnow - hours * 3600000000 \<le> timestamp r)
                                 (mset (glucose_readings db))
        \<and> sorted_wrt (\<lambda>a b. timestamp b \<le> timestamp a) rs
        \<and> (\<forall>s. calculate_statistics (x # xs) = Some s \<longrightarrow> current s = x)"
  by (auto simp: get_user_readings_def Let_def sorted_desc_sort_key calculate_statistics_def)

lemmas sample_db_defs =
  sample_db_def ann_def bob_def reading_recent_def reading_old_def reading_future_def
  reading_other_def

lemma get_user_readings_sample:
  "get_user_readings None 360000000000 sample_db 1 24 = Inr [reading_future, reading_recent]"
  by (simp add: get_user_readings_def sample_db_defs)

theorem get_user_readings_window_witness:
  "get_user_readings None 360000000000 sample_db 1 24 = Inr [reading_future, reading_recent]
   \<and> mset [reading_future, reading_recent]
       = filter_mset (\<lambda>r. user_id r = 1 \<and> 360000000000 - 24 * 3600000000 \<le> timestamp r)
                     (mset (glucose_readings sample_db))
   \<and> sorted_wrt (\<lambda>a b. timestamp b \<le> timestamp a) [reading_future, reading_recent]
   \<and> (\<exists>s. calculate_statistics [140, 110] = Some s \<and> current s = 140)"
proof -
  obtain rs where rs: "get_user_readings None 360000000000 sample_db 1 24 = Inr rs"
    and m: "mset rs = filter_mset (\<lambda>r. user_id r = 1
                                     \<and> 360000000000 - 24 * 3600000000 \<le> timestamp r)
                                 (mset (glucose_readings sample_db))"
    and s: "sorted_wrt (\<lambda>a b. timestamp b \<le> timestamp a) rs"
    and c: "\<forall>s. calculate_statistics (140 # [110]) = Some s \<longrightarrow> current s = 140"
    using get_user_readings_window [of 360000000000 sample_db 1 24 140 "[110]"] by blast
  have eq: "rs = [reading_future, reading_recent]"
    using rs get_user_readings_sample by simp
  obtain st where st: "calculate_statistics [140, 110] = Some st"
    by (simp add: calculate_statistics_def)
  with c have "current st = 140" by simp
  with rs m s st eq show ?thesis by blast
qed

theorem get_user_readings_future_counterexample:
  "get_user_readings None 360000000000 sample_db 1 24 = Inr [reading_future, reading_recent]
   \<and> reading_future \<in> set (glucose_readings sample_db)
   \<and> user_id reading_future = 1
   \<and> \<not> timestamp reading_future \<le> 360000000000"
  by (simp add: get_user_readings_def sample_db_defs)

text \<open>
  C10: for an existing user, \<open>get_or_create_user\<close> returns that user with \<open>uid\<close>,
  \<open>email\<close> and \<open>created_at\<close> unchanged; the stored URL changes only to a new URL that
  is neither empty nor the placeholder, and the stored phone number changes only to a new
  non-empty number, so it is never cleared. The stored row is the returned user, the other
  rows and the readings are untouched, and a failing session leaves the database as it was.
\<close>

theorem get_or_create_user_existing:
  assumes "find (\<lambda>u. email u = em) (users db) = Some old"
  shows "\<exists>new db'. get_or_create_user None utcnow db em ns_url phone = (Inr new, db')
          \<and> uid new = uid old \<and> email new = email old \<and> created_at new = created_at old
          \<and> nightscout_url new
              = (if ns_url \<noteq> [] \<and> ns_url \<noteq> placeholder_url then ns_url
                 else nightscout_url old)
          \<and> (nightscout_url new \<noteq> nightscout_url old
               \<longrightarrow> nightscout_url new \<noteq> [] \<and> nightscout_url new \<noteq> placeholder_url)
          \<and> phone_number new = (if truthy phone then phone else phone_number old)
          \<and> (phone_number old \<noteq> None \<longrightarrow> phone_number new \<noteq> None)
          \<and> users db' = map (\<lambda>u. if uid u = uid old then new else u) (users db)
          \<and> glucose_readings db' = glucose_readings db
          \<and> get_or_create_user (Some err) utcnow db em ns_url phone
              = (Inl (Raised Exception (''Database error: '' @ err)), db)"
  using assms
  by (auto simp: get_or_create_user_def Let_def truthy_def split: option.splits)

theorem get_or_create_user_existing_witness:
  "find (\<lambda>u. email u = ''ann@example.com'') (users sample_db) = Some ann
   \<and> get_or_create_user None 500 sample_db ''ann@example.com'' placeholder_url (Some '''')
       = (Inr ann, sample_db)
   \<and> get_or_create_user None 500 sample_db ''ann@example.com'' '''' None
       = (Inr ann, sample_db)
   \<and> get_or_create_user None 500 sample_db ''ann@example.com'' ''https://new.example.org''
        (Some ''+15550009999'')
       = (Inr (ann \<lparr> nightscout_url := ''https://new.example.org'',
                    phone_number := Some ''+15550009999'' \<rparr>),
          sample_db \<lparr> users := [ann \<lparr> nightscout_url := ''https://new.example.org'',
                                     phone_number := Some ''+15550009999'' \<rparr>, bob] \<rparr>)"
proof -
  have f: "find (\<lambda>u. email u = ''ann@example.com'') (users sample_db) = Some ann"
    by (simp add: sample_db_defs)
  have ne: "phone_number ann \<noteq> None" by (simp add: ann_def)
  obtain new db' where
    r: "get_or_create_user None 500 sample_db ''ann@example.com'' placeholder_url (Some '''')
          = (Inr new, db')"
    and k: "uid new = uid ann" "email new = email ann" "created_at new = created_at ann"
    and u: "nightscout_url new
              = (if placeholder_url \<noteq> [] \<and> placeholder_url \<noteq> placeholder_url
                 then placeholder_url else nightscout_url ann)"
    and p: "phone_number new = (if truthy (Some '''') then Some '''' else phone_number ann)"
    using get_or_create_user_existing [OF f, of 500 placeholder_url "Some ''''"] by blast
  have "nightscout_url new = nightscout_url ann" using u by simp
  moreover have "phone_number new = phone_number ann" using p by (simp add: truthy_def)
  ultimately have "nightscout_url new = ''https://ann.example.org''
                   \<and> phone_number new = Some ''+15552223333''"
    by (simp add: ann_def)
  moreover have
    "get_or_create_user None 500 sample_db ''ann@example.com'' placeholder_url (Some '''')
       = (Inr ann, sample_db)"
    by (simp add: get_or_create_user_def sample_db_defs truthy_def placeholder_url_def Let_def)
  moreover have
    "get_or_create_user None 500 sample_db ''ann@example.com'' '''' None
       = (Inr ann, sample_db)"
    by (simp add: get_or_create_user_def sample_db_defs truthy_def placeholder_url_def Let_def)
  moreover have
    "get_or_create_user None 500 sample_db ''ann@example.com'' ''https://new.example.org''
        (Some ''+15550009999'')
       = (Inr (ann \<lparr> nightscout_url := ''https://new.example.org'',
                    phone_number := Some ''+15550009999'' \<rparr>),
          sample_db \<lparr> users := [ann \<lparr> nightscout_url := ''https://new.example.org'',
                                     phone_number := Some ''+15550009999'' \<rparr>, bob] \<rparr>)"
    by (simp add: get_or_create_user_def sample_db_defs truthy_def placeholder_url_def Let_def)
  ultimately show ?thesis using f by blast
qed

end
